theory Spec2Isabelle
  imports Complex_Main
begin

section \<open>Values shared by the storage client, the model loader and the API\<close>

text \<open>
  Identifiers, object keys, file names and messages are ASCII in the source and are
  modelled as \<open>string\<close>; the Portuguese messages are written without their diacritics.
  A text submitted for prediction is a Python \<open>str\<close>, that is a sequence of Unicode
  code points, and is modelled as a list of code points, so that \<open>str.strip\<close> sees the
  same whitespace as the interpreter does.
\<close>

type_synonym pystr = "nat list"

text \<open>
  The exceptions that the modelled code raises or receives from its libraries. All of
  them are subclasses of Python's \<open>Exception\<close>, so every \<open>except Exception\<close> handler of
  the source catches each of them. \<open>ClientError\<close> carries the error code of the
  response (\<open>''404''\<close>, \<open>''NoSuchKey''\<close>, \<open>''BucketAlreadyExists''\<close>, ...).
\<close>

datatype exn =
    ClientError string
  | EndpointConnectionError
  | OSError
  | UnpicklingError
  | KeyError string
  | ImportError
  | IndexError
  | ValueError
  | AttributeError
  | RuntimeError string

fun exn_str :: "exn \<Rightarrow> string" where
  "exn_str (ClientError code) = ''An error occurred ('' @ code @ '')''"
| "exn_str EndpointConnectionError = ''Could not connect to the endpoint URL''"
| "exn_str OSError = ''OSError''"
| "exn_str UnpicklingError = ''UnpicklingError''"
| "exn_str (KeyError k) = k"
| "exn_str ImportError = ''ImportError''"
| "exn_str IndexError = ''index out of range''"
| "exn_str ValueError = ''ValueError''"
| "exn_str AttributeError = ''AttributeError''"
| "exn_str (RuntimeError msg) = msg"

text \<open>
  An artifact is whatever \<open>joblib.load\<close> returns or scikit-learn constructs. The source
  is duck-typed: the same object may be stored as the model or as the vectorizer, and a
  method the object lacks raises. An artifact therefore carries all three methods the
  loader calls, each of which may raise, its class name (\<open>type(x).__name__\<close>) and its
  truth value (\<open>if not self.model\<close> tests truthiness, not \<open>None\<close>-ness). Python's \<open>None\<close>
  is the \<open>None\<close> of \<open>artifact option\<close>. Probabilities are finite floats, which are only
  compared and copied here, never computed with: they are modelled as reals.
\<close>

type_synonym features = "real list list"

record artifact =
  type_name :: string
  truthy :: bool
  sk_transform :: "pystr list \<Rightarrow> exn + features"
  sk_predict :: "features \<Rightarrow> exn + int list"
  sk_predict_proba :: "features \<Rightarrow> exn + real list list"

definition py_bool :: "artifact option \<Rightarrow> bool" where
  "py_bool x = (case x of None \<Rightarrow> False | Some a \<Rightarrow> truthy a)"

section \<open>ModelLoader: the state\<close>

text \<open>
  The fields of \<open>ModelLoader\<close> set by \<open>__init__\<close>. \<open>s3_client\<close> is \<open>None\<close> when the
  client class could not be imported or its construction raised; otherwise it holds the
  endpoint the client was built for. \<open>model_info\<close> is a dictionary of strings.
\<close>

record loader =
  s3_config :: "string \<rightharpoonup> string"
  s3_client :: "string option"
  model :: "artifact option"
  vectorizer :: "artifact option"
  model_info :: "string \<rightharpoonup> string"
  last_loaded :: "string option"

definition is_model_loaded :: "loader \<Rightarrow> bool" where
  "is_model_loaded L = (model L \<noteq> None \<and> vectorizer L \<noteq> None)"

section \<open>ModelLoader.predict\<close>

record prediction_result =
  prediction :: string
  confidence :: real
  probabilities :: "string \<rightharpoonup> real"
  error :: "string option"

text \<open>
  Python's \<open>max\<close> over a sequence: the first element, replaced by each later element
  that is strictly greater; \<open>ValueError\<close> on an empty sequence.
\<close>

fun py_max_from :: "real \<Rightarrow> real list \<Rightarrow> real" where
  "py_max_from m [] = m"
| "py_max_from m (x # xs) = py_max_from (if x > m then x else m) xs"

definition py_max :: "real list \<Rightarrow> exn + real" where
  "py_max xs = (case xs of [] \<Rightarrow> Inl ValueError | x # rest \<Rightarrow> Inr (py_max_from x rest))"

definition py_index :: "'a list \<Rightarrow> nat \<Rightarrow> exn + 'a" where
  "py_index xs i = (if i < length xs then Inr (xs ! i) else Inl IndexError)"

text \<open>
  The body of the \<open>try\<close> block of \<open>predict\<close>, in the source's order of evaluation:
  vectorize the one-element batch, take row 0 of the predicted classes and of the
  predicted probabilities, map the class to a label, take the maximum, and build the
  result from entries 0 and 1 of the probability row.
\<close>

definition predict_try :: "artifact \<Rightarrow> artifact \<Rightarrow> pystr \<Rightarrow> exn + prediction_result" where
  "predict_try m v txt =
     (case sk_transform v [txt] of
        Inl e \<Rightarrow> Inl e
      | Inr text_vectorized \<Rightarrow>
     (case sk_predict m text_vectorized of
        Inl e \<Rightarrow> Inl e
      | Inr classes \<Rightarrow>
     (case py_index classes 0 of
        Inl e \<Rightarrow> Inl e
      | Inr cls \<Rightarrow>
     (case sk_predict_proba m text_vectorized of
        Inl e \<Rightarrow> Inl e
      | Inr rows \<Rightarrow>
     (case py_index rows 0 of
        Inl e \<Rightarrow> Inl e
      | Inr probs \<Rightarrow>
     (let prediction_label = (if cls = 1 then ''fake'' else ''real'') in
     (case py_max probs of
        Inl e \<Rightarrow> Inl e
      | Inr conf \<Rightarrow>
     (case py_index probs 0 of
        Inl e \<Rightarrow> Inl e
      | Inr p0 \<Rightarrow>
     (case py_index probs 1 of
        Inl e \<Rightarrow> Inl e
      | Inr p1 \<Rightarrow>
          Inr \<lparr>prediction = prediction_label,
               confidence = conf,
               probabilities = [''real'' \<mapsto> p0, ''fake'' \<mapsto> p1],
               error = None\<rparr>)))))))))"

definition predict :: "loader \<Rightarrow> pystr \<Rightarrow> exn + prediction_result" where
  "predict L txt =
     (if \<not> is_model_loaded L then Inl (RuntimeError ''Modelo nao esta carregado'')
      else
        (case (model L, vectorizer L) of
           (Some m, Some v) \<Rightarrow>
             (case predict_try m v txt of
                Inl e \<Rightarrow> Inl (RuntimeError (''Erro na predicao: '' @ exn_str e))
              | Inr r \<Rightarrow> Inr r)
         | _ \<Rightarrow> Inl (RuntimeError ''Modelo nao esta carregado'')))"

section \<open>The world outside the process\<close>

text \<open>
  Everything the loader and the storage client read from outside: the object store
  behind the boto3 client, the codec (\<open>joblib.load\<close>), the local file system, the
  scikit-learn constructors and the clock. Each operation that can raise in the source
  returns a sum here. The world is read, never written, by the modelled operations, and
  it is fixed for the duration of one load. The boto3 calls take their arguments in
  boto3's order: \<open>download_file\<close> the bucket, the key and the local file name, which
  it must be able to write; \<open>upload_file\<close> the local file name, the bucket and the key.
  A successful tier reads the clock twice, first for \<open>loaded_at\<close> and then for
  \<open>last_loaded\<close>: \<open>now_first\<close> and \<open>now_second\<close> are the two readings.
\<close>

type_synonym blob = "nat list"

record world =
  mktemp :: "exn + string"
  tempdir :: string
  unlink :: "string \<Rightarrow> exn option"
  s3_create_bucket :: "string \<Rightarrow> exn option"
  s3_upload_file :: "string \<Rightarrow> string \<Rightarrow> string \<Rightarrow> exn option"
  s3_download_file :: "string \<Rightarrow> string \<Rightarrow> string \<Rightarrow> exn + blob"
  s3_delete_object :: "string \<Rightarrow> string \<Rightarrow> exn option"
  s3_list_buckets :: "exn option"
  s3_list_objects_v2 :: "string \<Rightarrow> string \<Rightarrow> exn + string list option"
  joblib_loads :: "blob \<Rightarrow> exn + artifact option"
  joblib_dump :: "artifact option \<Rightarrow> string \<Rightarrow> exn option"
  models_dir :: string
  models_dir_exists :: bool
  listdir :: "exn + string list"
  files :: "string \<rightharpoonup> blob"
  sklearn_import :: "exn option"
  new_LogisticRegression :: artifact
  new_TfidfVectorizer :: artifact
  fit_transform :: "artifact \<Rightarrow> pystr list \<Rightarrow> exn + artifact \<times> features"
  fit :: "artifact \<Rightarrow> features \<Rightarrow> int list \<Rightarrow> exn + artifact"
  now_first :: string
  now_second :: string

definition startswith :: "string \<Rightarrow> string \<Rightarrow> bool" where
  "startswith s p = (take (length p) s = p)"

definition endswith :: "string \<Rightarrow> string \<Rightarrow> bool" where
  "endswith s p = (length p \<le> length s \<and> drop (length s - length p) s = p)"

definition path_join :: "string \<Rightarrow> string \<Rightarrow> string" where
  "path_join d f = d @ ''/'' @ f"

definition pystr_of :: "string \<Rightarrow> pystr" where
  "pystr_of s = map of_char s"

section \<open>S3Client\<close>




text \<open>
  \<open>download_model\<close>: the \<open>try\<close> block picks a temporary path when none is given,
  downloads the object to the path, deserializes the file, removes the file when it
  lies in the temporary directory, and returns the object. The handler turns every
  exception, of any of these steps, into the return value \<open>None\<close>.
\<close>

definition destination :: "world \<Rightarrow> string option \<Rightarrow> exn + string" where
  "destination w local_path = (case local_path of None \<Rightarrow> mktemp w | Some p \<Rightarrow> Inr p)"

definition download_model_try ::
    "world \<Rightarrow> string \<Rightarrow> string \<Rightarrow> string option \<Rightarrow> exn + artifact option" where
  "download_model_try w bucket_name object_key local_path =
     (case destination w local_path of
        Inl e \<Rightarrow> Inl e
      | Inr path \<Rightarrow>
     (case s3_download_file w bucket_name object_key path of
        Inl e \<Rightarrow> Inl e
      | Inr bytes \<Rightarrow>
     (case joblib_loads w bytes of
        Inl e \<Rightarrow> Inl e
      | Inr m \<Rightarrow>
          (if startswith path (tempdir w)
           then (case unlink w path of Some e \<Rightarrow> Inl e | None \<Rightarrow> Inr m)
           else Inr m))))"

definition download_model ::
    "world \<Rightarrow> string \<Rightarrow> string \<Rightarrow> string option \<Rightarrow> artifact option" where
  "download_model w bucket_name object_key local_path =
     (case download_model_try w bucket_name object_key local_path of
        Inl e \<Rightarrow> None
      | Inr m \<Rightarrow> m)"




section \<open>ModelLoader: loading\<close>

text \<open>
  The three methods \<open>load_model\<close>, \<open>_load_local_fallback\<close> and \<open>_load_dummy_model\<close>
  return the boolean of the source and the loader as the method left it. Assignments to
  \<open>self.model\<close> and \<open>self.vectorizer\<close> happen where the source makes them, so a path
  that raises or falls through afterwards keeps them. The third component is not in the
  source: it lists, in order, the tiers whose code ran and whether each of them
  returned success itself (\<open>True\<close>) or handed over to the next one (\<open>False\<close>).
\<close>

datatype tier = Remote | Local | Synthesized

type_synonym load_result = "bool \<times> loader \<times> (tier \<times> bool) list"

definition handed_over :: "tier \<Rightarrow> load_result \<Rightarrow> load_result" where
  "handed_over t r = (case r of (ok, L, trace) \<Rightarrow> (ok, L, (t, False) # trace))"

definition load_ok :: "load_result \<Rightarrow> bool" where
  "load_ok r = fst r"

definition load_state :: "load_result \<Rightarrow> loader" where
  "load_state r = fst (snd r)"

definition load_trace :: "load_result \<Rightarrow> (tier \<times> bool) list" where
  "load_trace r = snd (snd r)"

definition model_type :: "loader \<Rightarrow> string" where
  "model_type L = (case model L of None \<Rightarrow> ''NoneType'' | Some m \<Rightarrow> type_name m)"

definition dummy_texts :: "pystr list" where
  "dummy_texts = [pystr_of ''This is real news'', pystr_of ''This is fake news'',
                  pystr_of ''Another real story'']"

definition dummy_labels :: "int list" where
  "dummy_labels = [0, 1, 0]"

definition load_dummy_model :: "world \<Rightarrow> loader \<Rightarrow> load_result" where
  "load_dummy_model w L =
     (case sklearn_import w of
        Some e \<Rightarrow> (False, L, [(Synthesized, False)])
      | None \<Rightarrow>
          (let L1 = L\<lparr>model := Some (new_LogisticRegression w)\<rparr>;
               L2 = L1\<lparr>vectorizer := Some (new_TfidfVectorizer w)\<rparr>
           in (case fit_transform w (new_TfidfVectorizer w) dummy_texts of
                 Inl e \<Rightarrow> (False, L2, [(Synthesized, False)])
               | Inr (fitted_vectorizer, X_dummy) \<Rightarrow>
                   (let L3 = L2\<lparr>vectorizer := Some fitted_vectorizer\<rparr>
                    in (case fit w (new_LogisticRegression w) X_dummy dummy_labels of
                          Inl e \<Rightarrow> (False, L3, [(Synthesized, False)])
                        | Inr fitted_model \<Rightarrow>
                            (True,
                             L3\<lparr>model := Some fitted_model,
                                model_info :=
                                  [''source'' \<mapsto> ''dummy'',
                                   ''loaded_at'' \<mapsto> now_first w,
                                   ''model_type'' \<mapsto> ''DummyLogisticRegression'',
                                   ''warning'' \<mapsto> ''Este e um modelo dummy para desenvolvimento''],
                                last_loaded := Some (now_second w)\<rparr>,
                             [(Synthesized, True)]))))))"

text \<open>
  \<open>_load_local_fallback\<close>. The model file is the first listed name ending in
  \<open>.joblib\<close>; the vectorizer file has the fixed name \<open>vectorizer.joblib\<close>. Each of the
  two fields is assigned from its file only if the file exists and keeps its current
  value otherwise; deserialization may raise. The success test then reads \<open>self.model\<close>
  and \<open>self.vectorizer\<close>, whatever assigned them.
\<close>

definition load_if_exists :: "world \<Rightarrow> string \<Rightarrow> artifact option \<Rightarrow> exn + artifact option" where
  "load_if_exists w path current =
     (case files w path of
        None \<Rightarrow> Inr current
      | Some bytes \<Rightarrow> joblib_loads w bytes)"

definition load_local_fallback :: "world \<Rightarrow> loader \<Rightarrow> load_result" where
  "load_local_fallback w L =
     (if \<not> models_dir_exists w then handed_over Local (load_dummy_model w L)
      else
        (case listdir w of
           Inl e \<Rightarrow> handed_over Local (load_dummy_model w L)
         | Inr names \<Rightarrow>
        (case filter (\<lambda>f. endswith f ''.joblib'') names of
           [] \<Rightarrow> handed_over Local (load_dummy_model w L)
         | first_file # _ \<Rightarrow>
             (let model_path = path_join (models_dir w) first_file;
                  vectorizer_path = path_join (models_dir w) ''vectorizer.joblib''
              in
        (case load_if_exists w model_path (model L) of
           Inl e \<Rightarrow> handed_over Local (load_dummy_model w L)
         | Inr m \<Rightarrow>
             (let L1 = L\<lparr>model := m\<rparr> in
        (case load_if_exists w vectorizer_path (vectorizer L1) of
           Inl e \<Rightarrow> handed_over Local (load_dummy_model w L1)
         | Inr v \<Rightarrow>
             (let L2 = L1\<lparr>vectorizer := v\<rparr> in
              if py_bool (model L2) \<and> py_bool (vectorizer L2)
              then (True,
                    L2\<lparr>model_info :=
                         [''source'' \<mapsto> ''local'',
                          ''model_path'' \<mapsto> model_path,
                          ''vectorizer_path'' \<mapsto> vectorizer_path,
                          ''loaded_at'' \<mapsto> now_first w,
                          ''model_type'' \<mapsto> model_type L2],
                       last_loaded := Some (now_second w)\<rparr>,
                    [(Local, True)])
              else handed_over Local (load_dummy_model w L2)))))))))"

text \<open>
  \<open>load_model\<close>. A missing configuration key raises \<open>KeyError\<close> inside the \<open>try\<close>
  block, which the handler answers with the local fallback, as it does every other
  exception. Neither fallback method lets an exception out, so the handler is never
  entered from the \<open>return await self._load_local_fallback()\<close> lines.
\<close>

definition load_model :: "world \<Rightarrow> loader \<Rightarrow> load_result" where
  "load_model w L =
     (if s3_client L = None then handed_over Remote (load_local_fallback w L)
      else
        (case (s3_config L ''bucket_name'', s3_config L ''model_key'',
               s3_config L ''vectorizer_key'') of
           (Some bucket_name, Some model_key, Some vectorizer_key) \<Rightarrow>
             (let L1 = L\<lparr>model := download_model w bucket_name model_key None\<rparr>
              in if \<not> py_bool (model L1)
                 then handed_over Remote (load_local_fallback w L1)
                 else
                   (let L2 = L1\<lparr>vectorizer :=
                                  download_model w bucket_name vectorizer_key None\<rparr>
                    in if \<not> py_bool (vectorizer L2)
                       then handed_over Remote (load_local_fallback w L2)
                       else
                         (True,
                          L2\<lparr>model_info :=
                               [''source'' \<mapsto> ''s3'',
                                ''bucket'' \<mapsto> bucket_name,
                                ''model_key'' \<mapsto> model_key,
                                ''vectorizer_key'' \<mapsto> vectorizer_key,
                                ''loaded_at'' \<mapsto> now_first w,
                                ''model_type'' \<mapsto> model_type L2],
                             last_loaded := Some (now_second w)\<rparr>,
                          [(Remote, True)])))
         | _ \<Rightarrow> handed_over Remote (load_local_fallback w L)))"

definition reload_model :: "world \<Rightarrow> loader \<Rightarrow> load_result" where
  "reload_model w L = load_model w L"

text \<open>
  \<open>ModelLoader.__init__\<close>: no model, no vectorizer, empty provenance. The client is
  built from the configured endpoint when the client class is available; a missing
  \<open>endpoint_url\<close> raises \<open>KeyError\<close> inside the constructor's \<open>try\<close>, which leaves
  \<open>s3_client\<close> at \<open>None\<close>. \<open>create_model_loader\<close> supplies the default keys.
\<close>

definition init_loader :: "(string \<rightharpoonup> string) \<Rightarrow> bool \<Rightarrow> loader" where
  "init_loader config client_available =
     \<lparr>s3_config = config,
      s3_client = (if client_available then config ''endpoint_url'' else None),
      model = None, vectorizer = None,
      model_info = Map.empty, last_loaded = None\<rparr>"

definition create_model_loader :: "string \<Rightarrow> string \<Rightarrow> bool \<Rightarrow> loader" where
  "create_model_loader s3_endpoint bucket_name client_available =
     init_loader
       [''endpoint_url'' \<mapsto> s3_endpoint,
        ''bucket_name'' \<mapsto> bucket_name,
        ''model_key'' \<mapsto> ''models/best_model.joblib'',
        ''vectorizer_key'' \<mapsto> ''models/vectorizer.joblib'']
       client_available"

text \<open>
  Two notions used to state properties of the chain. The remote tier succeeds exactly
  when the client exists, the three keys are configured and both downloads return a
  truthy object; the placeholder can be constructed exactly when the imports, the
  vectorizer's \<open>fit_transform\<close> and the model's \<open>fit\<close> all return.
\<close>

definition remote_succeeds :: "world \<Rightarrow> loader \<Rightarrow> bool" where
  "remote_succeeds w L =
     (s3_client L \<noteq> None \<and>
      (case (s3_config L ''bucket_name'', s3_config L ''model_key'',
             s3_config L ''vectorizer_key'') of
         (Some bucket_name, Some model_key, Some vectorizer_key) \<Rightarrow>
           py_bool (download_model w bucket_name model_key None) \<and>
           py_bool (download_model w bucket_name vectorizer_key None)
       | _ \<Rightarrow> False))"

definition dummy_constructs :: "world \<Rightarrow> bool" where
  "dummy_constructs w =
     (case sklearn_import w of
        Some e \<Rightarrow> False
      | None \<Rightarrow>
          (case fit_transform w (new_TfidfVectorizer w) dummy_texts of
             Inl e \<Rightarrow> False
           | Inr (fitted_vectorizer, X_dummy) \<Rightarrow>
               (case fit w (new_LogisticRegression w) X_dummy dummy_labels of
                  Inl e \<Rightarrow> False
                | Inr fitted_model \<Rightarrow> True)))"

text \<open>
  What the local files hold: the objects that the first listed \<open>.joblib\<close> file and
  the file \<open>vectorizer.joblib\<close> deserialize to, when the directory can be listed and
  both files exist and deserialize. And what the placeholder construction builds: the
  fitted model and the fitted vectorizer.
\<close>

definition local_artifacts :: "world \<Rightarrow> (artifact option \<times> artifact option) option" where
  "local_artifacts w =
     (if \<not> models_dir_exists w then None
      else
        (case listdir w of
           Inl e \<Rightarrow> None
         | Inr names \<Rightarrow>
        (case filter (\<lambda>f. endswith f ''.joblib'') names of
           [] \<Rightarrow> None
         | first_file # _ \<Rightarrow>
        (case files w (path_join (models_dir w) first_file) of
           None \<Rightarrow> None
         | Some model_bytes \<Rightarrow>
        (case files w (path_join (models_dir w) ''vectorizer.joblib'') of
           None \<Rightarrow> None
         | Some vectorizer_bytes \<Rightarrow>
        (case joblib_loads w model_bytes of
           Inl e \<Rightarrow> None
         | Inr m \<Rightarrow>
        (case joblib_loads w vectorizer_bytes of
           Inl e \<Rightarrow> None
         | Inr v \<Rightarrow> Some (m, v))))))))"

definition dummy_artifacts :: "world \<Rightarrow> (artifact \<times> artifact) option" where
  "dummy_artifacts w =
     (case sklearn_import w of
        Some e \<Rightarrow> None
      | None \<Rightarrow>
          (case fit_transform w (new_TfidfVectorizer w) dummy_texts of
             Inl e \<Rightarrow> None
           | Inr (fitted_vectorizer, X_dummy) \<Rightarrow>
               (case fit w (new_LogisticRegression w) X_dummy dummy_labels of
                  Inl e \<Rightarrow> None
                | Inr fitted_model \<Rightarrow> Some (fitted_model, fitted_vectorizer))))"


text \<open>The value each tier writes under \<open>source\<close>.\<close>

fun source_tag :: "tier \<Rightarrow> string" where
  "source_tag Remote = ''s3''"
| "source_tag Local = ''local''"
| "source_tag Synthesized = ''dummy''"

section \<open>The API: batch prediction\<close>

datatype http_exception = HTTPException nat string

text \<open>
  \<open>str.isspace\<close> for one code point, and \<open>str.strip()\<close> with no argument, which removes
  such code points from both ends.
\<close>

definition py_isspace :: "nat \<Rightarrow> bool" where
  "py_isspace c =
     ((9 \<le> c \<and> c \<le> 13) \<or> (28 \<le> c \<and> c \<le> 32) \<or> c = 133 \<or> c = 160 \<or> c = 5760 \<or>
      (8192 \<le> c \<and> c \<le> 8202) \<or> c = 8232 \<or> c = 8233 \<or> c = 8239 \<or> c = 8287 \<or>
      c = 12288)"

definition py_strip :: "pystr \<Rightarrow> pystr" where
  "py_strip s = rev (dropWhile py_isspace (rev (dropWhile py_isspace s)))"

definition error_entry :: prediction_result where
  "error_entry =
     \<lparr>prediction = ''error'', confidence = 0,
      probabilities = [''real'' \<mapsto> 0, ''fake'' \<mapsto> 0],
      error = Some ''Texto vazio''\<rparr>"

text \<open>
  The \<open>for\<close> loop of \<open>batch_predict\<close>: \<open>results\<close> is the accumulator, an exception of
  \<open>predict\<close> leaves the loop.
\<close>

fun batch_loop ::
    "loader \<Rightarrow> pystr list \<Rightarrow> prediction_result list \<Rightarrow> exn + prediction_result list" where
  "batch_loop L [] results = Inr results"
| "batch_loop L (t # ts) results =
     (if py_strip t \<noteq> []
      then (case predict L t of
              Inl e \<Rightarrow> Inl e
            | Inr result \<Rightarrow> batch_loop L ts (results @ [result]))
      else batch_loop L ts (results @ [error_entry]))"

text \<open>
  \<open>batch_predict\<close>: the global \<open>model_loader\<close> is \<open>None\<close> until startup has built it.
  An \<open>HTTPException\<close> raised in the \<open>try\<close> block is re-raised as it is; any other
  exception becomes status 500.
\<close>

definition model_available :: "loader option \<Rightarrow> bool" where
  "model_available model_loader =
     (case model_loader of None \<Rightarrow> False | Some L \<Rightarrow> is_model_loaded L)"

definition batch_predict ::
    "loader option \<Rightarrow> pystr list \<Rightarrow> http_exception + prediction_result list" where
  "batch_predict model_loader texts =
     (case model_loader of
        None \<Rightarrow> Inl (HTTPException 503 ''Modelo nao esta disponivel'')
      | Some L \<Rightarrow>
          (if \<not> is_model_loaded L
           then Inl (HTTPException 503 ''Modelo nao esta disponivel'')
           else if length texts > 100
           then Inl (HTTPException 400 ''Maximo de 100 textos por requisicao'')
           else (case batch_loop L texts [] of
                   Inl e \<Rightarrow> Inl (HTTPException 500 ''Erro interno na predicao em lote'')
                 | Inr results \<Rightarrow> Inr results)))"

section \<open>Concrete artifacts, worlds and loaders\<close>

text \<open>
  A fitted vectorizer and a fitted classifier in the shape scikit-learn gives them: the
  vectorizer has no \<open>predict\<close>, the classifier no \<open>transform\<close>. The classifier answers
  class 1 with probabilities 0.3 and 0.7 for every row.
\<close>

definition demo_vectorizer :: artifact where
  "demo_vectorizer =
     \<lparr>type_name = ''TfidfVectorizer'', truthy = True,
      sk_transform = (\<lambda>texts. Inr (map (\<lambda>t. [real (length t)]) texts)),
      sk_predict = (\<lambda>X. Inl AttributeError),
      sk_predict_proba = (\<lambda>X. Inl AttributeError)\<rparr>"

definition demo_model :: artifact where
  "demo_model =
     \<lparr>type_name = ''LogisticRegression'', truthy = True,
      sk_transform = (\<lambda>texts. Inl AttributeError),
      sk_predict = (\<lambda>X. Inr (map (\<lambda>row. 1) X)),
      sk_predict_proba = (\<lambda>X. Inr (map (\<lambda>row. [3 / 10, 7 / 10]) X))\<rparr>"

definition unfit_vectorizer :: artifact where
  "unfit_vectorizer =
     \<lparr>type_name = ''TfidfVectorizer'', truthy = True,
      sk_transform = (\<lambda>texts. Inl ValueError),
      sk_predict = (\<lambda>X. Inl AttributeError),
      sk_predict_proba = (\<lambda>X. Inl AttributeError)\<rparr>"

definition unfit_model :: artifact where
  "unfit_model =
     \<lparr>type_name = ''LogisticRegression'', truthy = True,
      sk_transform = (\<lambda>texts. Inl AttributeError),
      sk_predict = (\<lambda>X. Inl ValueError),
      sk_predict_proba = (\<lambda>X. Inl ValueError)\<rparr>"

text \<open>
  A world with no reachable store and no local models directory, in which scikit-learn
  works. The codec reads the one-byte blobs \<open>[1]\<close> and \<open>[2]\<close> as the classifier and the
  vectorizer and rejects everything else.
\<close>

definition offline_world :: world where
  "offline_world =
     \<lparr>mktemp = Inr ''/tmp/tmpq1w2e3.joblib'',
      tempdir = ''/tmp'',
      unlink = (\<lambda>path. None),
      s3_create_bucket = (\<lambda>bucket. Some EndpointConnectionError),
      s3_upload_file = (\<lambda>filename bucket key. Some EndpointConnectionError),
      s3_download_file = (\<lambda>bucket key filename. Inl EndpointConnectionError),
      s3_delete_object = (\<lambda>bucket key. Some EndpointConnectionError),
      s3_list_buckets = Some EndpointConnectionError,
      s3_list_objects_v2 = (\<lambda>bucket prefix. Inl EndpointConnectionError),
      joblib_loads =
        (\<lambda>bytes. if bytes = [1] then Inr (Some demo_model)
                  else if bytes = [2] then Inr (Some demo_vectorizer)
                  else Inl UnpicklingError),
      joblib_dump = (\<lambda>object filename. None),
      models_dir = ''models'',
      models_dir_exists = False,
      listdir = Inl OSError,
      files = Map.empty,
      sklearn_import = None,
      new_LogisticRegression = unfit_model,
      new_TfidfVectorizer = unfit_vectorizer,
      fit_transform = (\<lambda>v texts. Inr (demo_vectorizer, map (\<lambda>t. [real (length t)]) texts)),
      fit = (\<lambda>m X y. Inr demo_model),
      now_first = ''2024-05-01T12:00:00.000120'',
      now_second = ''2024-05-01T12:00:00.000180''\<rparr>"

text \<open>The store is reachable and holds none of the requested objects.\<close>

definition empty_store_world :: world where
  "empty_store_world =
     offline_world
       \<lparr>s3_create_bucket := (\<lambda>bucket. Some (ClientError ''BucketAlreadyExists'')),
        s3_upload_file := (\<lambda>filename bucket key. None),
        s3_download_file := (\<lambda>bucket key filename. Inl (ClientError ''404'')),
        s3_delete_object := (\<lambda>bucket key. None),
        s3_list_buckets := None,
        s3_list_objects_v2 := (\<lambda>bucket prefix. Inr None)\<rparr>"

text \<open>The store holds both artifacts under the default keys.\<close>

definition full_store_world :: world where
  "full_store_world =
     offline_world
       \<lparr>s3_download_file :=
          (\<lambda>bucket key filename.
             if key = ''models/best_model.joblib'' then Inr [1]
             else if key = ''models/vectorizer.joblib'' then Inr [2]
             else Inl (ClientError ''404'')),
        s3_list_objects_v2 :=
          (\<lambda>bucket prefix. Inr (Some [''models/best_model.joblib'', ''models/vectorizer.joblib'']))\<rparr>"

text \<open>
  The store holds the model but not the vectorizer, there is no local directory and
  scikit-learn cannot be imported.
\<close>

definition half_store_world :: world where
  "half_store_world =
     offline_world
       \<lparr>s3_download_file :=
          (\<lambda>bucket key filename.
             if key = ''models/best_model.joblib'' then Inr [1]
             else Inl (ClientError ''404'')),
        sklearn_import := Some ImportError\<rparr>"

text \<open>
  No reachable store; the local directory lists the vectorizer file before the model
  file.
\<close>

definition vectorizer_first_world :: world where
  "vectorizer_first_world =
     offline_world
       \<lparr>models_dir_exists := True,
        listdir := Inr [''README.md'', ''vectorizer.joblib'', ''best_model.joblib''],
        files := [''models/vectorizer.joblib'' \<mapsto> [2], ''models/best_model.joblib'' \<mapsto> [1]]\<rparr>"

text \<open>
  No reachable store; the local directory holds a model file and no vectorizer file.
\<close>

definition model_only_world :: world where
  "model_only_world =
     offline_world
       \<lparr>models_dir_exists := True,
        listdir := Inr [''best_model.joblib''],
        files := [''models/best_model.joblib'' \<mapsto> [1]]\<rparr>"

text \<open>No reachable store; the local directory holds both files, the model file first.\<close>

definition local_files_world :: world where
  "local_files_world =
     offline_world
       \<lparr>models_dir_exists := True,
        listdir := Inr [''best_model.joblib'', ''notes.txt'', ''vectorizer.joblib''],
        files := [''models/best_model.joblib'' \<mapsto> [1], ''models/vectorizer.joblib'' \<mapsto> [2]]\<rparr>"

text \<open>The store is reachable, but the temporary file cannot be removed after a download.\<close>

definition sticky_tmp_world :: world where
  "sticky_tmp_world = full_store_world\<lparr>unlink := (\<lambda>path. Some OSError)\<rparr>"

definition fresh_loader :: loader where
  "fresh_loader = create_model_loader ''http://localhost:4566'' ''fake-news-models'' True"

text \<open>
  The loader after a load from the full store, and the loader after a load from the
  directory that lists the vectorizer file first.
\<close>

definition demo_loader :: loader where
  "demo_loader = load_state (load_model full_store_world fresh_loader)"

definition doubled_loader :: loader where
  "doubled_loader = load_state (load_model vectorizer_first_world fresh_loader)"

definition hello :: pystr where
  "hello = pystr_of ''Breaking news''"

definition blank :: pystr where
  "blank = [32, 9, 12288]"

section \<open>Lemmas about the three tiers\<close>

lemmas world_defs =
  offline_world_def empty_store_world_def full_store_world_def half_store_world_def
  vectorizer_first_world_def model_only_world_def local_files_world_def
  sticky_tmp_world_def

lemmas loader_defs =
  fresh_loader_def create_model_loader_def init_loader_def

lemmas artifact_defs = demo_vectorizer_def demo_model_def unfit_vectorizer_def unfit_model_def

lemmas load_defs =
  load_model_def load_local_fallback_def load_dummy_model_def handed_over_def
  download_model_def download_model_try_def destination_def load_if_exists_def py_bool_def startswith_def endswith_def
  path_join_def model_type_def load_ok_def load_state_def load_trace_def Let_def

lemma handed_over_simps:
  "load_ok (handed_over t r) = load_ok r"
  "load_state (handed_over t r) = load_state r"
  "load_trace (handed_over t r) = (t, False) # load_trace r"
  by (cases r; simp add: handed_over_def load_ok_def load_state_def load_trace_def)+

lemma triple_simps:
  "load_ok (b, L, tr) = b" "load_state (b, L, tr) = L" "load_trace (b, L, tr) = tr"
  by (simp_all add: load_ok_def load_state_def load_trace_def)

subsection \<open>The synthesized tier\<close>

lemma dummy_trace:
  "load_trace (load_dummy_model w L) = [(Synthesized, load_ok (load_dummy_model w L))]"
  by (simp add: load_dummy_model_def Let_def triple_simps split: option.split sum.split prod.split)

lemma dummy_ok_iff: "load_ok (load_dummy_model w L) = dummy_constructs w"
  by (simp add: load_dummy_model_def dummy_constructs_def Let_def triple_simps
        split: option.split sum.split prod.split)

lemma dummy_failed_keeps:
  "\<not> load_ok (load_dummy_model w L) \<Longrightarrow>
     model_info (load_state (load_dummy_model w L)) = model_info L \<and>
     last_loaded (load_state (load_dummy_model w L)) = last_loaded L"
  by (simp add: load_dummy_model_def Let_def triple_simps split: option.splits sum.splits prod.splits)

lemma dummy_config:
  "s3_config (load_state (load_dummy_model w L)) = s3_config L \<and>
   s3_client (load_state (load_dummy_model w L)) = s3_client L"
  by (simp add: load_dummy_model_def Let_def triple_simps split: option.splits sum.splits prod.splits)

lemma dummy_ok_info:
  "load_ok (load_dummy_model w L) \<Longrightarrow>
     model_info (load_state (load_dummy_model w L)) =
       [''source'' \<mapsto> ''dummy'', ''loaded_at'' \<mapsto> now_first w,
        ''model_type'' \<mapsto> ''DummyLogisticRegression'',
        ''warning'' \<mapsto> ''Este e um modelo dummy para desenvolvimento''] \<and>
     last_loaded (load_state (load_dummy_model w L)) = Some (now_second w) \<and>
     is_model_loaded (load_state (load_dummy_model w L))"
  by (simp add: load_dummy_model_def Let_def triple_simps is_model_loaded_def
        split: option.splits sum.splits prod.splits)

lemma dummy_info_indep:
  "load_ok (load_dummy_model w L) \<Longrightarrow>
     model_info (load_state (load_dummy_model w L')) = model_info (load_state (load_dummy_model w L))"
  using dummy_ok_info[of w L] dummy_ok_info[of w L'] by (simp add: dummy_ok_iff)

subsection \<open>The local tier\<close>

lemma local_trace:
  "load_trace (load_local_fallback w L) = [(Local, True)] \<and> load_ok (load_local_fallback w L)
   \<or> load_trace (load_local_fallback w L) =
        [(Local, False), (Synthesized, load_ok (load_local_fallback w L))]"
  by (simp add: load_local_fallback_def Let_def triple_simps handed_over_simps dummy_trace
        split: sum.split list.split)

lemma local_trace_nonempty: "load_trace (load_local_fallback w L) \<noteq> []"
  using local_trace[of w L] by auto

lemma local_failed_keeps:
  "\<not> load_ok (load_local_fallback w L) \<Longrightarrow>
     model_info (load_state (load_local_fallback w L)) = model_info L \<and>
     last_loaded (load_state (load_local_fallback w L)) = last_loaded L"
  by (auto simp add: load_local_fallback_def Let_def triple_simps handed_over_simps
        dest!: dummy_failed_keeps split: sum.splits list.splits if_splits)

lemma local_config:
  "s3_config (load_state (load_local_fallback w L)) = s3_config L \<and>
   s3_client (load_state (load_local_fallback w L)) = s3_client L"
  by (auto simp add: load_local_fallback_def Let_def triple_simps handed_over_simps dummy_config
        split: sum.splits list.splits)

lemma local_ok_when_dummy: "dummy_constructs w \<Longrightarrow> load_ok (load_local_fallback w L)"
  by (auto simp add: load_local_fallback_def Let_def triple_simps handed_over_simps dummy_ok_iff
        split: sum.splits list.splits)

lemma local_ok_info:
  "load_ok (load_local_fallback w L) \<Longrightarrow>
     model_info (load_state (load_local_fallback w L)) ''source'' =
       Some (source_tag (fst (last (load_trace (load_local_fallback w L))))) \<and>
     model_info (load_state (load_local_fallback w L)) ''loaded_at'' = Some (now_first w) \<and>
     last_loaded (load_state (load_local_fallback w L)) = Some (now_second w)"
  by (auto simp add: load_local_fallback_def Let_def triple_simps handed_over_simps
        dummy_ok_info dummy_trace
        split: sum.splits list.splits)

lemma local_ok_indep:
  "model L' = model L \<Longrightarrow> vectorizer L' = vectorizer L \<Longrightarrow>
     load_ok (load_local_fallback w L') = load_ok (load_local_fallback w L)"
  by (simp add: load_local_fallback_def Let_def triple_simps handed_over_simps dummy_ok_iff
        split: sum.split list.split)

lemma local_info_indep:
  "model L' = model L \<Longrightarrow> vectorizer L' = vectorizer L \<Longrightarrow>
     load_ok (load_local_fallback w L) \<Longrightarrow>
     model_info (load_state (load_local_fallback w L')) =
       model_info (load_state (load_local_fallback w L))"
  by (auto simp add: load_local_fallback_def Let_def triple_simps handed_over_simps
        model_type_def dummy_ok_iff
        intro!: dummy_info_indep split: sum.splits list.splits)

subsection \<open>The whole chain\<close>



lemma model_remote_iff:
  "load_trace (load_model w L) = [(Remote, True)] \<longleftrightarrow> remote_succeeds w L"
  by (simp add: load_model_def remote_succeeds_def Let_def handed_over_simps triple_simps
        split: option.split)

lemma model_failed_keeps:
  "\<not> load_ok (load_model w L) \<Longrightarrow>
     model_info (load_state (load_model w L)) = model_info L \<and>
     last_loaded (load_state (load_model w L)) = last_loaded L"
  by (auto simp add: load_model_def Let_def triple_simps handed_over_simps
        dest!: local_failed_keeps split: option.splits if_splits)

lemma model_config:
  "s3_config (load_state (load_model w L)) = s3_config L \<and>
   s3_client (load_state (load_model w L)) = s3_client L"
  by (simp add: load_model_def Let_def triple_simps handed_over_simps local_config
        split: option.split)

lemma model_ok_when_dummy: "dummy_constructs w \<Longrightarrow> load_ok (load_model w L)"
  by (simp add: load_model_def Let_def triple_simps handed_over_simps local_ok_when_dummy
        split: option.split)

lemma model_ok_info:
  "load_ok (load_model w L) \<Longrightarrow>
     model_info (load_state (load_model w L)) ''source'' =
       Some (source_tag (fst (last (load_trace (load_model w L))))) \<and>
     model_info (load_state (load_model w L)) ''loaded_at'' = Some (now_first w) \<and>
     last_loaded (load_state (load_model w L)) = Some (now_second w)"
  by (auto simp add: load_model_def Let_def triple_simps handed_over_simps local_ok_info
        local_trace_nonempty split: option.splits if_splits)

lemma model_ok_indep:
  "s3_config L' = s3_config L \<Longrightarrow> s3_client L' = s3_client L \<Longrightarrow>
   model L' = model L \<Longrightarrow> vectorizer L' = vectorizer L \<Longrightarrow>
     load_ok (load_model w L') = load_ok (load_model w L)"
  by (auto simp add: load_model_def Let_def triple_simps handed_over_simps
        intro!: local_ok_indep split: option.splits)

lemma model_info_indep:
  "s3_config L' = s3_config L \<Longrightarrow> s3_client L' = s3_client L \<Longrightarrow>
   model L' = model L \<Longrightarrow> vectorizer L' = vectorizer L \<Longrightarrow>
   load_ok (load_model w L) \<Longrightarrow>
     model_info (load_state (load_model w L')) = model_info (load_state (load_model w L))"
  by (auto simp add: load_model_def Let_def triple_simps handed_over_simps model_type_def
        intro!: local_info_indep split: option.splits if_splits)

lemma demo_loader_fields:
  "model demo_loader = Some demo_model"
  "vectorizer demo_loader = Some demo_vectorizer"
  "model_info demo_loader ''source'' = Some ''s3''"
  "last_loaded demo_loader = Some ''2024-05-01T12:00:00.000180''"
  by (simp_all add: demo_loader_def load_defs loader_defs world_defs artifact_defs)

lemma doubled_loader_fields:
  "model doubled_loader = Some demo_vectorizer"
  "vectorizer doubled_loader = Some demo_vectorizer"
  by (simp_all add: doubled_loader_def load_defs loader_defs world_defs artifact_defs)

section \<open>Failed loads and the visible state\<close>

text \<open>
  C1, as the code has it. A load that does not report success leaves the provenance
  (\<open>model_info\<close>), the load timestamp, the configuration and the client as they were
  before the load. The \<open>model\<close> and \<open>vectorizer\<close> fields are not part of this
  guarantee: every tier assigns them in place as it runs, and nothing restores them
  when the tier fails or hands over.
\<close>

theorem failed_load_keeps_provenance:
  assumes "\<not> load_ok (load_model w L)"
  shows "model_info (load_state (load_model w L)) = model_info L
       \<and> last_loaded (load_state (load_model w L)) = last_loaded L
       \<and> s3_config (load_state (load_model w L)) = s3_config L
       \<and> s3_client (load_state (load_model w L)) = s3_client L"
  using model_failed_keeps[OF assms] model_config[of w L] by simp

text \<open>
  A reload of the loader that serves the store's model, in the world where the store
  has lost the vectorizer and the placeholder cannot be built, fails and keeps the
  provenance of the earlier load.
\<close>

theorem failed_load_keeps_provenance_witness:
  "\<not> load_ok (load_model half_store_world demo_loader)
   \<and> model_info (load_state (load_model half_store_world demo_loader)) = model_info demo_loader
   \<and> last_loaded (load_state (load_model half_store_world demo_loader)) = last_loaded demo_loader
   \<and> model_info demo_loader ''source'' = Some ''s3''"
proof -
  have failed: "\<not> load_ok (load_model half_store_world demo_loader)"
    by (simp add: demo_loader_def load_defs loader_defs world_defs artifact_defs)
  show ?thesis
    using failed failed_load_keeps_provenance[OF failed] demo_loader_fields(3) by blast
qed

text \<open>
  C1 as stated fails. From the empty loader, a load that finds the model but not the
  vectorizer in the store, no local directory and no scikit-learn returns \<open>False\<close> with
  the downloaded model in \<open>model\<close> and \<open>None\<close> in \<open>vectorizer\<close>. From a loader that
  serves a model, a reload with the store unreachable and no scikit-learn returns
  \<open>False\<close> with \<open>model\<close> overwritten by \<open>None\<close> and the old vectorizer still in place.
\<close>

theorem failed_load_half_updated:
  "\<not> load_ok (load_model half_store_world fresh_loader)
   \<and> model fresh_loader = None
   \<and> vectorizer fresh_loader = None
   \<and> model (load_state (load_model half_store_world fresh_loader)) = Some demo_model
   \<and> vectorizer (load_state (load_model half_store_world fresh_loader)) = None
   \<and> \<not> load_ok (load_model (offline_world\<lparr>sklearn_import := Some ImportError\<rparr>) demo_loader)
   \<and> model demo_loader = Some demo_model
   \<and> vectorizer demo_loader = Some demo_vectorizer
   \<and> model (load_state (load_model (offline_world\<lparr>sklearn_import := Some ImportError\<rparr>) demo_loader)) = None
   \<and> vectorizer (load_state (load_model (offline_world\<lparr>sklearn_import := Some ImportError\<rparr>) demo_loader))
       = Some demo_vectorizer"
  by (simp add: demo_loader_def load_defs loader_defs world_defs artifact_defs)

section \<open>The order of the tiers\<close>

lemma model_remote_artifacts:
  assumes "remote_succeeds w L"
  shows "\<exists>bucket_name model_key vectorizer_key.
           s3_config L ''bucket_name'' = Some bucket_name
         \<and> s3_config L ''model_key'' = Some model_key
         \<and> s3_config L ''vectorizer_key'' = Some vectorizer_key
         \<and> model (load_state (load_model w L)) = download_model w bucket_name model_key None
         \<and> vectorizer (load_state (load_model w L)) =
             download_model w bucket_name vectorizer_key None"
  using assms
  by (auto simp add: remote_succeeds_def load_model_def Let_def triple_simps
        split: option.splits)



lemma loaded_after_update:
  "py_bool m \<Longrightarrow> py_bool v \<Longrightarrow>
     is_model_loaded (L\<lparr>model := m, vectorizer := v, model_info := mi, last_loaded := ll\<rparr>)"
  by (cases m; cases v; simp add: is_model_loaded_def py_bool_def)

lemma local_ok_loaded:
  "load_ok (load_local_fallback w L) \<Longrightarrow> is_model_loaded (load_state (load_local_fallback w L))"
  by (auto simp add: load_local_fallback_def Let_def triple_simps handed_over_simps
        dummy_ok_info loaded_after_update
        split: sum.splits list.splits if_splits)

lemma model_ok_loaded:
  "load_ok (load_model w L) \<Longrightarrow> is_model_loaded (load_state (load_model w L))"
  by (auto simp add: load_model_def Let_def triple_simps handed_over_simps
        local_ok_loaded loaded_after_update
        split: option.splits if_splits)

lemma py_max_pair: "py_max [a, b] = Inr (max a b)"
  by (simp add: py_max_def max_def)

section \<open>Provenance\<close>

lemma dummy_ok_artifacts:
  "load_ok (load_dummy_model w L) \<Longrightarrow>
     (\<exists>fitted_model fitted_vectorizer.
        dummy_artifacts w = Some (fitted_model, fitted_vectorizer)
      \<and> model (load_state (load_dummy_model w L)) = Some fitted_model
      \<and> vectorizer (load_state (load_dummy_model w L)) = Some fitted_vectorizer)"
  by (auto simp add: load_dummy_model_def dummy_artifacts_def Let_def triple_simps
        split: option.splits sum.splits prod.splits)

lemma local_synth_artifacts:
  "load_trace (load_local_fallback w L) = [(Local, False), (Synthesized, True)] \<Longrightarrow>
     (\<exists>fitted_model fitted_vectorizer.
        dummy_artifacts w = Some (fitted_model, fitted_vectorizer)
      \<and> model (load_state (load_local_fallback w L)) = Some fitted_model
      \<and> vectorizer (load_state (load_local_fallback w L)) = Some fitted_vectorizer)"
  by (auto simp add: load_local_fallback_def Let_def triple_simps handed_over_simps
        dummy_trace dest!: dummy_ok_artifacts split: sum.splits list.splits if_splits)

lemma model_synth_artifacts:
  "load_trace (load_model w L) = [(Remote, False), (Local, False), (Synthesized, True)] \<Longrightarrow>
     (\<exists>fitted_model fitted_vectorizer.
        dummy_artifacts w = Some (fitted_model, fitted_vectorizer)
      \<and> model (load_state (load_model w L)) = Some fitted_model
      \<and> vectorizer (load_state (load_model w L)) = Some fitted_vectorizer)"
  by (auto simp add: load_model_def Let_def triple_simps handed_over_simps
        dest!: local_synth_artifacts split: option.splits if_splits)

lemma local_files_adopted:
  assumes "local_artifacts w = Some (m, v)" and "py_bool m" and "py_bool v"
  shows "load_trace (load_local_fallback w L) = [(Local, True)]
       \<and> model (load_state (load_local_fallback w L)) = m
       \<and> vectorizer (load_state (load_local_fallback w L)) = v
       \<and> model_info (load_state (load_local_fallback w L)) ''source'' = Some ''local''"
  using assms
  by (auto simp add: local_artifacts_def load_local_fallback_def load_if_exists_def Let_def
        triple_simps split: if_splits sum.splits list.splits option.splits)

lemma model_local_files_adopted:
  assumes "\<not> remote_succeeds w L"
    and "local_artifacts w = Some (m, v)" and "py_bool m" and "py_bool v"
  shows "load_trace (load_model w L) = [(Remote, False), (Local, True)]
       \<and> model (load_state (load_model w L)) = m
       \<and> vectorizer (load_state (load_model w L)) = v
       \<and> model_info (load_state (load_model w L)) ''source'' = Some ''local''"
  using assms(1) local_files_adopted[OF assms(2,3,4)]
  by (auto simp add: load_model_def remote_succeeds_def Let_def triple_simps handed_over_simps
        split: option.splits if_splits)

text \<open>
  C3, as the code has it. After every load that reports success the recorded source is
  one of \<open>s3\<close>, \<open>local\<close> and \<open>dummy\<close>, and it names the tier that produced the
  artifacts in each of these cases. When the remote tier succeeds, the source is \<open>s3\<close>
  and the model and the vectorizer are the two downloaded objects. When the remote tier
  fails and the local directory's first \<open>.joblib\<close> file and its \<open>vectorizer.joblib\<close>
  both exist and deserialize to usable objects, the source is \<open>local\<close> and the model
  and the vectorizer are those two objects. When the remote and the local tier both
  hand over and the placeholder is built, the source is \<open>dummy\<close> and the model and the
  vectorizer are the fitted placeholder pair. The provenance carries the first clock
  reading of this load and \<open>last_loaded\<close> the second, and the provenance is written
  afresh, whatever provenance and timestamp the loader held before. A success of the
  local tier in which one of the two files does not exist is not described here.
\<close>

theorem provenance_written_by_successful_tier:
  assumes "load_ok (load_model w L)"
  shows "model_info (load_state (load_model w L)) ''source''
           \<in> set [Some ''s3'', Some ''local'', Some ''dummy'']
       \<and> (remote_succeeds w L \<longrightarrow>
            model_info (load_state (load_model w L)) ''source'' = Some ''s3''
          \<and> (\<exists>bucket_name model_key vectorizer_key.
                s3_config L ''bucket_name'' = Some bucket_name
              \<and> s3_config L ''model_key'' = Some model_key
              \<and> s3_config L ''vectorizer_key'' = Some vectorizer_key
              \<and> model (load_state (load_model w L)) =
                  download_model w bucket_name model_key None
              \<and> vectorizer (load_state (load_model w L)) =
                  download_model w bucket_name vectorizer_key None))
       \<and> (\<not> remote_succeeds w L \<and> local_artifacts w = Some (m, v) \<and> py_bool m \<and> py_bool v \<longrightarrow>
            model_info (load_state (load_model w L)) ''source'' = Some ''local''
          \<and> model (load_state (load_model w L)) = m
          \<and> vectorizer (load_state (load_model w L)) = v)
       \<and> (load_trace (load_model w L) = [(Remote, False), (Local, False), (Synthesized, True)] \<longrightarrow>
            model_info (load_state (load_model w L)) ''source'' = Some ''dummy''
          \<and> (\<exists>fitted_model fitted_vectorizer.
                dummy_artifacts w = Some (fitted_model, fitted_vectorizer)
              \<and> model (load_state (load_model w L)) = Some fitted_model
              \<and> vectorizer (load_state (load_model w L)) = Some fitted_vectorizer))
       \<and> model_info (load_state (load_model w L)) ''loaded_at'' = Some (now_first w)
       \<and> last_loaded (load_state (load_model w L)) = Some (now_second w)
       \<and> model_info (load_state (load_model w (L\<lparr>model_info := old_info, last_loaded := old_time\<rparr>)))
           = model_info (load_state (load_model w L))"
proof -
  let ?r = "load_model w L"
  have src: "model_info (load_state ?r) ''source'' = Some (source_tag (fst (last (load_trace ?r))))"
    and at: "model_info (load_state ?r) ''loaded_at'' = Some (now_first w)"
    and ll: "last_loaded (load_state ?r) = Some (now_second w)"
    using model_ok_info[OF assms] by simp_all
  have "source_tag t \<in> set [''s3'', ''local'', ''dummy'']" for t
    by (cases t) simp_all
  then have mem: "model_info (load_state ?r) ''source'' \<in> set [Some ''s3'', Some ''local'', Some ''dummy'']"
    using src by auto
  have remote: "remote_succeeds w L \<longrightarrow>
            model_info (load_state ?r) ''source'' = Some ''s3''
          \<and> (\<exists>bucket_name model_key vectorizer_key.
                s3_config L ''bucket_name'' = Some bucket_name
              \<and> s3_config L ''model_key'' = Some model_key
              \<and> s3_config L ''vectorizer_key'' = Some vectorizer_key
              \<and> model (load_state ?r) = download_model w bucket_name model_key None
              \<and> vectorizer (load_state ?r) = download_model w bucket_name vectorizer_key None)"
  proof
    assume rs: "remote_succeeds w L"
    then have "load_trace ?r = [(Remote, True)]"
      by (simp add: model_remote_iff)
    then have "model_info (load_state ?r) ''source'' = Some ''s3''"
      using src by simp
    then show "model_info (load_state ?r) ''source'' = Some ''s3''
          \<and> (\<exists>bucket_name model_key vectorizer_key.
                s3_config L ''bucket_name'' = Some bucket_name
              \<and> s3_config L ''model_key'' = Some model_key
              \<and> s3_config L ''vectorizer_key'' = Some vectorizer_key
              \<and> model (load_state ?r) = download_model w bucket_name model_key None
              \<and> vectorizer (load_state ?r) = download_model w bucket_name vectorizer_key None)"
      using model_remote_artifacts[OF rs] by blast
  qed
  have local: "\<not> remote_succeeds w L \<and> local_artifacts w = Some (m, v) \<and> py_bool m \<and> py_bool v \<longrightarrow>
            model_info (load_state ?r) ''source'' = Some ''local''
          \<and> model (load_state ?r) = m
          \<and> vectorizer (load_state ?r) = v"
    using model_local_files_adopted[of w L m v] by blast
  have synth: "load_trace ?r = [(Remote, False), (Local, False), (Synthesized, True)] \<longrightarrow>
            model_info (load_state ?r) ''source'' = Some ''dummy''
          \<and> (\<exists>fitted_model fitted_vectorizer.
                dummy_artifacts w = Some (fitted_model, fitted_vectorizer)
              \<and> model (load_state ?r) = Some fitted_model
              \<and> vectorizer (load_state ?r) = Some fitted_vectorizer)"
  proof
    assume tr: "load_trace ?r = [(Remote, False), (Local, False), (Synthesized, True)]"
    then have "model_info (load_state ?r) ''source'' = Some ''dummy''"
      using src by simp
    then show "model_info (load_state ?r) ''source'' = Some ''dummy''
          \<and> (\<exists>fitted_model fitted_vectorizer.
                dummy_artifacts w = Some (fitted_model, fitted_vectorizer)
              \<and> model (load_state ?r) = Some fitted_model
              \<and> vectorizer (load_state ?r) = Some fitted_vectorizer)"
      using model_synth_artifacts[OF tr] by blast
  qed
  have indep: "model_info (load_state (load_model w (L\<lparr>model_info := old_info, last_loaded := old_time\<rparr>)))
           = model_info (load_state ?r)"
    by (rule model_info_indep) (simp_all add: assms)
  show ?thesis
    using mem remote local synth at ll indep by blast
qed

text \<open>
  A reload of the loader that serves the store's model, with the store gone and both
  local files present; a first load from the full store; a first load with neither
  store nor local directory.
\<close>

theorem provenance_written_by_successful_tier_witness:
  "model_info demo_loader ''source'' = Some ''s3''
   \<and> load_ok (load_model local_files_world demo_loader)
   \<and> \<not> remote_succeeds local_files_world demo_loader
   \<and> local_artifacts local_files_world = Some (Some demo_model, Some demo_vectorizer)
   \<and> model_info (load_state (load_model local_files_world demo_loader)) ''source'' = Some ''local''
   \<and> model (load_state (load_model local_files_world demo_loader)) = Some demo_model
   \<and> vectorizer (load_state (load_model local_files_world demo_loader)) = Some demo_vectorizer
   \<and> model_info (load_state (load_model local_files_world demo_loader)) ''loaded_at''
       = Some ''2024-05-01T12:00:00.000120''
   \<and> last_loaded (load_state (load_model local_files_world demo_loader))
       = Some ''2024-05-01T12:00:00.000180''
   \<and> load_ok (load_model full_store_world fresh_loader)
   \<and> remote_succeeds full_store_world fresh_loader
   \<and> model_info (load_state (load_model full_store_world fresh_loader)) ''source'' = Some ''s3''
   \<and> load_ok (load_model offline_world fresh_loader)
   \<and> load_trace (load_model offline_world fresh_loader)
       = [(Remote, False), (Local, False), (Synthesized, True)]
   \<and> model_info (load_state (load_model offline_world fresh_loader)) ''source'' = Some ''dummy''"
proof -
  have ok1: "load_ok (load_model local_files_world demo_loader)"
    and nr: "\<not> remote_succeeds local_files_world demo_loader"
    by (simp_all add: demo_loader_def remote_succeeds_def load_defs loader_defs world_defs
          artifact_defs)
  have la: "local_artifacts local_files_world = Some (Some demo_model, Some demo_vectorizer)"
    by (simp add: local_artifacts_def world_defs endswith_def path_join_def)
  have tb: "py_bool (Some demo_model)" "py_bool (Some demo_vectorizer)"
    by (simp_all add: py_bool_def artifact_defs)
  have clocks: "now_first local_files_world = ''2024-05-01T12:00:00.000120''"
    "now_second local_files_world = ''2024-05-01T12:00:00.000180''"
    by (simp_all add: world_defs)
  have ok2: "load_ok (load_model full_store_world fresh_loader)"
    and rs: "remote_succeeds full_store_world fresh_loader"
    by (simp_all add: remote_succeeds_def load_defs loader_defs world_defs artifact_defs)
  have ok3: "load_ok (load_model offline_world fresh_loader)"
    and tr: "load_trace (load_model offline_world fresh_loader)
       = [(Remote, False), (Local, False), (Synthesized, True)]"
    by (simp_all add: load_defs loader_defs world_defs artifact_defs)
  show ?thesis
    using provenance_written_by_successful_tier[OF ok1, of "Some demo_model" "Some demo_vectorizer"]
      provenance_written_by_successful_tier[OF ok2]
      provenance_written_by_successful_tier[OF ok3]
      ok1 nr la tb clocks ok2 rs ok3 tr demo_loader_fields(3)
    by simp
qed

text \<open>
  C3 as stated fails in two ways. On the values: when the remote and the local tier
  both fail the recorded source is \<open>dummy\<close>, none of \<open>remote\<close>, \<open>local\<close>,
  \<open>synthesized\<close>, and a load from the store records \<open>s3\<close>. On the tier that produced
  the artifacts: a reload of the loader that serves the store's pair, with the store
  unreachable and a local directory that holds a model file and no \<open>vectorizer.joblib\<close>,
  reports success with source \<open>local\<close> while the vectorizer is still the object
  downloaded from the store, and records a vectorizer path at which no file exists.
\<close>

theorem source_values_and_stale_vectorizer:
  "load_ok (load_model offline_world fresh_loader)
   \<and> load_trace (load_model offline_world fresh_loader) =
       [(Remote, False), (Local, False), (Synthesized, True)]
   \<and> model_info (load_state (load_model offline_world fresh_loader)) ''source'' = Some ''dummy''
   \<and> model_info (load_state (load_model offline_world fresh_loader)) ''source''
       \<notin> set [Some ''remote'', Some ''local'', Some ''synthesized'']
   \<and> load_ok (load_model full_store_world fresh_loader)
   \<and> load_trace (load_model full_store_world fresh_loader) = [(Remote, True)]
   \<and> model_info (load_state (load_model full_store_world fresh_loader)) ''source'' = Some ''s3''
   \<and> model_info demo_loader ''source'' = Some ''s3''
   \<and> vectorizer demo_loader = Some demo_vectorizer
   \<and> files model_only_world ''models/vectorizer.joblib'' = None
   \<and> load_ok (load_model model_only_world demo_loader)
   \<and> load_trace (load_model model_only_world demo_loader) = [(Remote, False), (Local, True)]
   \<and> model_info (load_state (load_model model_only_world demo_loader)) ''source'' = Some ''local''
   \<and> vectorizer (load_state (load_model model_only_world demo_loader)) = Some demo_vectorizer
   \<and> model_info (load_state (load_model model_only_world demo_loader)) ''vectorizer_path''
       = Some ''models/vectorizer.joblib''"
  by (simp add: demo_loader_def load_defs loader_defs world_defs artifact_defs)

section \<open>Acquisition never fails while the placeholder can be built\<close>

text \<open>
  C4. In every world in which \<open>_load_dummy_model\<close> returns success, whatever the
  store, the codec and the file system raise, \<open>load_model\<close> returns success, with a
  recorded source and with both artifacts set. Every exception of the world is a value
  \<open>Inl e\<close> of one of its operations, and the result of \<open>load_model\<close> is a return value
  for each of them; only a world in which the placeholder cannot be built lets it
  return \<open>False\<close>.
\<close>

theorem acquisition_succeeds_when_placeholder_constructs:
  assumes "load_ok (load_dummy_model w L0)"
  shows "load_ok (load_model w L)
       \<and> model_info (load_state (load_model w L)) ''source'' \<in> set [Some ''s3'', Some ''local'', Some ''dummy'']
       \<and> is_model_loaded (load_state (load_model w L))"
proof -
  have "dummy_constructs w"
    using assms by (simp add: dummy_ok_iff)
  then have ok: "load_ok (load_model w L)"
    by (rule model_ok_when_dummy)
  have "source_tag t \<in> set [''s3'', ''local'', ''dummy'']" for t
    by (cases t) simp_all
  then have "model_info (load_state (load_model w L)) ''source'' \<in> set [Some ''s3'', Some ''local'', Some ''dummy'']"
    using model_ok_info[OF ok] by auto
  then show ?thesis
    using ok model_ok_loaded[OF ok] by blast
qed

theorem acquisition_succeeds_when_placeholder_constructs_witness:
  "load_ok (load_dummy_model empty_store_world fresh_loader)
   \<and> s3_download_file empty_store_world ''fake-news-models'' ''models/best_model.joblib''
         ''/tmp/tmpq1w2e3.joblib'' = Inl (ClientError ''404'')
   \<and> \<not> models_dir_exists empty_store_world
   \<and> load_ok (load_model empty_store_world fresh_loader)
   \<and> is_model_loaded (load_state (load_model empty_store_world fresh_loader))"
proof -
  have ok: "load_ok (load_dummy_model empty_store_world fresh_loader)"
    by (simp add: load_defs loader_defs world_defs artifact_defs)
  have env: "s3_download_file empty_store_world ''fake-news-models'' ''models/best_model.joblib''
         ''/tmp/tmpq1w2e3.joblib'' = Inl (ClientError ''404'')" "\<not> models_dir_exists empty_store_world"
    by (simp_all add: world_defs)
  show ?thesis
    using acquisition_succeeds_when_placeholder_constructs[OF ok, of fresh_loader] ok env
    by blast
qed

section \<open>Prediction\<close>

text \<open>
  C5. With a model and a vectorizer loaded, for every text on which the vectorizer
  transforms and the model yields a class and the probability row \<open>[p_real, p_fake]\<close>,
  \<open>predict\<close> returns a result whose confidence is the larger of the two, whose
  probabilities map \<open>real\<close> to entry 0 and \<open>fake\<close> to entry 1, and whose label is \<open>fake\<close>
  exactly when the predicted class is 1 and \<open>real\<close> otherwise.
\<close>

theorem predict_result:
  assumes "model L = Some m" and "vectorizer L = Some v"
    and "sk_transform v [txt] = Inr X"
    and "sk_predict m X = Inr (cls # other_classes)"
    and "sk_predict_proba m X = Inr ([p_real, p_fake] # other_rows)"
  shows "\<exists>r. predict L txt = Inr r
           \<and> confidence r = max p_real p_fake
           \<and> probabilities r ''real'' = Some p_real
           \<and> probabilities r ''fake'' = Some p_fake
           \<and> (prediction r = ''fake'' \<longleftrightarrow> cls = 1)
           \<and> (prediction r = ''real'' \<longleftrightarrow> cls \<noteq> 1)"
  using assms
  by (simp add: predict_def is_model_loaded_def predict_try_def py_index_def py_max_pair)

theorem predict_result_witness:
  "\<exists>r. predict demo_loader hello = Inr r
       \<and> confidence r = 7 / 10
       \<and> probabilities r ''real'' = Some (3 / 10)
       \<and> probabilities r ''fake'' = Some (7 / 10)
       \<and> prediction r = ''fake''"
proof -
  have "sk_transform demo_vectorizer [hello] = Inr [[13]]"
    by (simp add: artifact_defs hello_def pystr_of_def)
  moreover have "sk_predict demo_model [[13]] = Inr (1 # [])"
    by (simp add: artifact_defs)
  moreover have "sk_predict_proba demo_model [[13]] = Inr ([3 / 10, 7 / 10] # [])"
    by (simp add: artifact_defs)
  ultimately show ?thesis
    using predict_result[OF demo_loader_fields(1) demo_loader_fields(2), of hello "[[13]]" 1 "[]" "3 / 10" "7 / 10" "[]"]
    by auto
qed

lemma batch_loop_all_ok:
  assumes "\<forall>t\<in>set ts. py_strip t \<noteq> [] \<longrightarrow> (\<exists>r. predict L t = Inr r)"
  shows "\<exists>rs. batch_loop L ts acc = Inr (acc @ rs)
            \<and> list_all2 (\<lambda>t r. if py_strip t = [] then r = error_entry
                                else predict L t = Inr r) ts rs"
  using assms
proof (induction ts arbitrary: acc)
  case Nil
  then show ?case by simp
next
  case (Cons t ts)
  show ?case
  proof (cases "py_strip t = []")
    case True
    from Cons.IH[of "acc @ [error_entry]"] Cons.prems
    obtain rs where "batch_loop L ts (acc @ [error_entry]) = Inr ((acc @ [error_entry]) @ rs)"
      and "list_all2 (\<lambda>t r. if py_strip t = [] then r = error_entry
                                else predict L t = Inr r) ts rs"
      by auto
    with True show ?thesis
      by (intro exI[of _ "error_entry # rs"]) simp
  next
    case False
    with Cons.prems obtain r where r: "predict L t = Inr r" by auto
    from Cons.IH[of "acc @ [r]"] Cons.prems
    obtain rs where "batch_loop L ts (acc @ [r]) = Inr ((acc @ [r]) @ rs)"
      and "list_all2 (\<lambda>t r. if py_strip t = [] then r = error_entry
                                else predict L t = Inr r) ts rs"
      by auto
    with False r show ?thesis
      by (intro exI[of _ "r # rs"]) simp
  qed
qed

lemma batch_loop_raises:
  assumes "t \<in> set ts" and "py_strip t \<noteq> []" and "predict L t = Inl e"
  shows "\<exists>e'. batch_loop L ts acc = Inl e'"
  using assms
proof (induction ts arbitrary: acc)
  case Nil
  then show ?case by simp
next
  case (Cons u us)
  show ?case
  proof (cases "py_strip u \<noteq> [] \<and> (\<exists>e. predict L u = Inl e)")
    case True
    then show ?thesis by auto
  next
    case False
    then have "u \<noteq> t" using Cons.prems by auto
    then have "t \<in> set us" using Cons.prems by simp
    from Cons.IH[OF this Cons.prems(2,3)] False show ?thesis
      by (cases "predict L u") auto
  qed
qed

lemma demo_predict_hello:
  "predict demo_loader hello =
     Inr \<lparr>prediction = ''fake'', confidence = 7 / 10,
          probabilities = [''real'' \<mapsto> 3 / 10, ''fake'' \<mapsto> 7 / 10], error = None\<rparr>"
  by (simp add: predict_def is_model_loaded_def demo_loader_fields predict_try_def
        artifact_defs py_index_def py_max_def)

lemma strip_examples: "py_strip hello \<noteq> []" "py_strip blank = []"
  by (simp_all add: py_strip_def hello_def blank_def pystr_of_def py_isspace_def)

lemma doubled_predict_hello: "\<exists>e. predict doubled_loader hello = Inl e"
  by (simp add: predict_def is_model_loaded_def doubled_loader_fields predict_try_def
        artifact_defs)

section \<open>Batch prediction\<close>

text \<open>
  C6, as the code has it. With a model loaded, a batch of more than 100 texts is
  rejected with status 400 and nothing is predicted. For a batch of at most 100 texts
  on whose non-blank texts \<open>predict\<close> returns, the answer has exactly one entry per
  text, in the order of the texts: the error entry (\<open>prediction = error\<close>, confidence
  0, both probabilities 0) for a blank text, and the result of \<open>predict\<close> for any
  other. If \<open>predict\<close> raises on some non-blank text of such a batch, the whole batch
  fails with status 500.
\<close>

theorem batch_predict_contract:
  assumes "is_model_loaded L"
  shows "(length texts > 100 \<longrightarrow>
            batch_predict (Some L) texts =
              Inl (HTTPException 400 ''Maximo de 100 textos por requisicao''))
       \<and> (length texts \<le> 100 \<and> (\<forall>t\<in>set texts. py_strip t \<noteq> [] \<longrightarrow> (\<exists>r. predict L t = Inr r)) \<longrightarrow>
            (\<exists>rs. batch_predict (Some L) texts = Inr rs
                \<and> length rs = length texts
                \<and> list_all2 (\<lambda>t r. if py_strip t = [] then r = error_entry
                                     else predict L t = Inr r) texts rs))
       \<and> (length texts \<le> 100 \<and> (\<exists>t\<in>set texts. py_strip t \<noteq> [] \<and> (\<exists>e. predict L t = Inl e)) \<longrightarrow>
            batch_predict (Some L) texts =
              Inl (HTTPException 500 ''Erro interno na predicao em lote''))
       \<and> prediction error_entry = ''error''
       \<and> confidence error_entry = 0
       \<and> probabilities error_entry ''real'' = Some 0
       \<and> probabilities error_entry ''fake'' = Some 0"
proof -
  have over: "length texts > 100 \<longrightarrow>
            batch_predict (Some L) texts =
              Inl (HTTPException 400 ''Maximo de 100 textos por requisicao'')"
    using assms by (simp add: batch_predict_def)
  have within: "length texts \<le> 100 \<and> (\<forall>t\<in>set texts. py_strip t \<noteq> [] \<longrightarrow> (\<exists>r. predict L t = Inr r)) \<longrightarrow>
            (\<exists>rs. batch_predict (Some L) texts = Inr rs
                \<and> length rs = length texts
                \<and> list_all2 (\<lambda>t r. if py_strip t = [] then r = error_entry
                                     else predict L t = Inr r) texts rs)"
  proof
    assume h: "length texts \<le> 100 \<and> (\<forall>t\<in>set texts. py_strip t \<noteq> [] \<longrightarrow> (\<exists>r. predict L t = Inr r))"
    then obtain rs where loop: "batch_loop L texts [] = Inr ([] @ rs)"
      and all: "list_all2 (\<lambda>t r. if py_strip t = [] then r = error_entry
                                     else predict L t = Inr r) texts rs"
      using batch_loop_all_ok[of texts L "[]"] by blast
    have "length rs = length texts"
      using all by (simp add: list_all2_lengthD)
    moreover have "batch_predict (Some L) texts = Inr rs"
      using assms h loop by (simp add: batch_predict_def)
    ultimately show "\<exists>rs. batch_predict (Some L) texts = Inr rs
                \<and> length rs = length texts
                \<and> list_all2 (\<lambda>t r. if py_strip t = [] then r = error_entry
                                     else predict L t = Inr r) texts rs"
      using all by blast
  qed
  have raises: "length texts \<le> 100 \<and> (\<exists>t\<in>set texts. py_strip t \<noteq> [] \<and> (\<exists>e. predict L t = Inl e)) \<longrightarrow>
            batch_predict (Some L) texts =
              Inl (HTTPException 500 ''Erro interno na predicao em lote'')"
  proof
    assume h: "length texts \<le> 100 \<and> (\<exists>t\<in>set texts. py_strip t \<noteq> [] \<and> (\<exists>e. predict L t = Inl e))"
    then obtain e' where "batch_loop L texts [] = Inl e'"
      using batch_loop_raises[of _ texts L _ "[]"] by blast
    then show "batch_predict (Some L) texts =
              Inl (HTTPException 500 ''Erro interno na predicao em lote'')"
      using assms h by (simp add: batch_predict_def)
  qed
  show ?thesis
    using over within raises by (simp add: error_entry_def)
qed

text \<open>
  A batch of 101 texts, a batch of four texts and one blank, and a batch sent to the
  loader whose model is the vectorizer object.
\<close>

theorem batch_predict_contract_witness:
  "is_model_loaded demo_loader
   \<and> batch_predict (Some demo_loader) (replicate 101 hello) =
       Inl (HTTPException 400 ''Maximo de 100 textos por requisicao'')
   \<and> (\<exists>rs. batch_predict (Some demo_loader) [hello, hello, blank, hello, hello] = Inr rs
         \<and> length rs = 5
         \<and> map prediction rs = [''fake'', ''fake'', ''error'', ''fake'', ''fake''])
   \<and> is_model_loaded doubled_loader
   \<and> batch_predict (Some doubled_loader) [blank, hello] =
       Inl (HTTPException 500 ''Erro interno na predicao em lote'')"
proof -
  have loaded: "is_model_loaded demo_loader"
    by (simp add: is_model_loaded_def demo_loader_fields)
  have loaded2: "is_model_loaded doubled_loader"
    by (simp add: is_model_loaded_def doubled_loader_fields)
  have over: "batch_predict (Some demo_loader) (replicate 101 hello) =
       Inl (HTTPException 400 ''Maximo de 100 textos por requisicao'')"
    using batch_predict_contract[OF loaded, of "replicate 101 hello"] by simp
  have "\<exists>rs. batch_predict (Some demo_loader) [hello, hello, blank, hello, hello] = Inr rs
         \<and> length rs = length [hello, hello, blank, hello, hello]
         \<and> list_all2 (\<lambda>t r. if py_strip t = [] then r = error_entry
                              else predict demo_loader t = Inr r)
             [hello, hello, blank, hello, hello] rs"
    using batch_predict_contract[OF loaded, of "[hello, hello, blank, hello, hello]"]
    by (simp add: demo_predict_hello strip_examples)
  then have mixed: "\<exists>rs. batch_predict (Some demo_loader) [hello, hello, blank, hello, hello] = Inr rs
         \<and> length rs = 5
         \<and> map prediction rs = [''fake'', ''fake'', ''error'', ''fake'', ''fake'']"
    by (auto simp add: list_all2_Cons1 demo_predict_hello strip_examples error_entry_def)
  have raised: "batch_predict (Some doubled_loader) [blank, hello] =
       Inl (HTTPException 500 ''Erro interno na predicao em lote'')"
    using batch_predict_contract[OF loaded2, of "[blank, hello]"] doubled_predict_hello
    by (simp add: strip_examples)
  show ?thesis
    using loaded loaded2 over mixed raised by blast
qed

text \<open>
  C6 as stated fails. The loader that adopted the vectorizer file as its model counts
  as loaded; its \<open>predict\<close> raises on every text, and a batch of two texts, one of them
  blank, gets no entries at all but status 500.
\<close>

theorem batch_fails_when_predict_raises:
  "is_model_loaded doubled_loader
   \<and> length [blank, hello] \<le> 100
   \<and> py_strip blank = []
   \<and> py_strip hello \<noteq> []
   \<and> batch_predict (Some doubled_loader) [blank, hello] =
       Inl (HTTPException 500 ''Erro interno na predicao em lote'')"
  by (simp add: batch_predict_def is_model_loaded_def doubled_loader_fields strip_examples
        predict_def predict_try_def artifact_defs)

text \<open>
  C9. While no model is available (no loader, or a loader without both artifacts),
  every batch, of whatever length, is answered with status 503; status 400 for the
  size is given only when a model is available and the batch has more than 100 texts.
\<close>

theorem loaded_check_precedes_size_check:
  "(\<not> model_available model_loader \<longrightarrow>
      batch_predict model_loader texts = Inl (HTTPException 503 ''Modelo nao esta disponivel''))
   \<and> (batch_predict model_loader texts = Inl (HTTPException 400 detail) \<longrightarrow>
      model_available model_loader \<and> length texts > 100)"
  by (auto simp add: batch_predict_def model_available_def split: option.splits sum.splits if_splits)

theorem loaded_check_precedes_size_check_witness:
  "\<not> model_available None
   \<and> \<not> model_available (Some fresh_loader)
   \<and> length (replicate 101 hello) > 100
   \<and> batch_predict None (replicate 101 hello) =
       Inl (HTTPException 503 ''Modelo nao esta disponivel'')
   \<and> batch_predict (Some fresh_loader) (replicate 101 hello) =
       Inl (HTTPException 503 ''Modelo nao esta disponivel'')"
proof -
  have a: "\<not> model_available None" "\<not> model_available (Some fresh_loader)"
    by (simp_all add: model_available_def is_model_loaded_def loader_defs)
  show ?thesis
    using a loaded_check_precedes_size_check[of None "replicate 101 hello"]
      loaded_check_precedes_size_check[of "Some fresh_loader" "replicate 101 hello"]
    by simp
qed

section \<open>The local tier and the vectorizer file\<close>

text \<open>
  C10. When the local directory exists and the first listed name ending in \<open>.joblib\<close>
  is \<open>vectorizer.joblib\<close>, and that file exists and deserializes to a usable object,
  the local tier stores that one object both as the model and as the vectorizer,
  records the same path for both, and returns success with source \<open>local\<close>.
\<close>

theorem local_tier_adopts_vectorizer_as_model:
  assumes "models_dir_exists w"
    and "listdir w = Inr names"
    and "filter (\<lambda>f. endswith f ''.joblib'') names = ''vectorizer.joblib'' # others"
    and "files w (path_join (models_dir w) ''vectorizer.joblib'') = Some bytes"
    and "joblib_loads w bytes = Inr (Some a)"
    and "truthy a"
  shows "load_ok (load_local_fallback w L)
       \<and> load_trace (load_local_fallback w L) = [(Local, True)]
       \<and> model (load_state (load_local_fallback w L)) = Some a
       \<and> vectorizer (load_state (load_local_fallback w L)) = Some a
       \<and> model_info (load_state (load_local_fallback w L)) ''source'' = Some ''local''
       \<and> model_info (load_state (load_local_fallback w L)) ''model_path''
           = model_info (load_state (load_local_fallback w L)) ''vectorizer_path''"
  using assms
  by (simp add: load_local_fallback_def load_if_exists_def Let_def py_bool_def triple_simps)

theorem local_tier_adopts_vectorizer_as_model_witness:
  "models_dir_exists vectorizer_first_world
   \<and> listdir vectorizer_first_world = Inr [''README.md'', ''vectorizer.joblib'', ''best_model.joblib'']
   \<and> load_ok (load_local_fallback vectorizer_first_world fresh_loader)
   \<and> model (load_state (load_local_fallback vectorizer_first_world fresh_loader)) = Some demo_vectorizer
   \<and> vectorizer (load_state (load_local_fallback vectorizer_first_world fresh_loader)) = Some demo_vectorizer"
proof -
  have a: "models_dir_exists vectorizer_first_world"
    and b: "listdir vectorizer_first_world = Inr [''README.md'', ''vectorizer.joblib'', ''best_model.joblib'']"
    and c: "filter (\<lambda>f. endswith f ''.joblib'') [''README.md'', ''vectorizer.joblib'', ''best_model.joblib'']
             = ''vectorizer.joblib'' # [''best_model.joblib'']"
    and d: "files vectorizer_first_world (path_join (models_dir vectorizer_first_world) ''vectorizer.joblib'') = Some [2]"
    and e: "joblib_loads vectorizer_first_world [2] = Inr (Some demo_vectorizer)"
    and f: "truthy demo_vectorizer"
    by (simp_all add: world_defs endswith_def path_join_def artifact_defs)
  show ?thesis
    using local_tier_adopts_vectorizer_as_model[OF a b c d e f, of fresh_loader] a b by simp
qed

section \<open>The storage client's failures\<close>









end
